theory Spec2Isabelle
  imports Complex_Main "HOL-Library.Multiset" "HOL-Library.Sublist"
begin

section \<open>Data model (src/types/index.ts)\<close>

text \<open>
  A TypeScript \<open>number\<close> is read as a real number: the times are finite playback
  positions, and on finite values the comparator \<open>a.time - b.time\<close> has the sign of the
  exact difference. The field \<open>id\<close> is written \<open>id'\<close>, since \<open>id\<close> is the
  identity function of HOL.
\<close>

record TimePoint =
  id' :: string
  time :: real
  label :: string

record DurationPair =
  startId :: string
  endId :: string
  duration :: real

section \<open>Library functions the source calls\<close>

text \<open>
  \<open>Number.prototype.toString\<close> on a non-negative integer (\<open>Date.now()\<close>, a length):
  its decimal digits, most significant first.
\<close>

definition digitChar :: "nat \<Rightarrow> char" where
  "digitChar d = ''0123456789'' ! d"

function toString :: "nat \<Rightarrow> string" where
  "toString n =
     (if n < 10 then [digitChar n]
      else toString (n div 10) @ [digitChar (n mod 10)])"
  by pat_completeness auto
termination
  by (relation "measure (\<lambda>n. n)") auto

declare toString.simps [simp del]

text \<open>
  \<open>[...xs].sort((a, b) => a.time - b.time)\<close>: a copy of the array sorted ascending by
  \<open>time\<close>. ECMAScript specifies \<open>Array.prototype.sort\<close> as a stable sort, which is what
  the insertion sort \<open>sort_key\<close> of the list library is.
\<close>

definition sortByTime :: "TimePoint list \<Rightarrow> TimePoint list" where
  "sortByTime xs = sort_key time xs"

section \<open>Duration calculation (src/components/TimePointManager.tsx)\<close>

text \<open>
  The loop of \<open>calculateDurations\<close>:
  \<open>for (let i = 0; i < sortedPoints.length - 1; i += 2) { if (i + 1 < sortedPoints.length) ... }\<close>.
  The bound \<open>sortedPoints.length - 1\<close> is \<open>-1\<close> on the empty array, hence the integers.
\<close>

function pairLoop :: "TimePoint list \<Rightarrow> nat \<Rightarrow> DurationPair list \<Rightarrow> DurationPair list" where
  "pairLoop sortedPoints i durations =
     (if int i < int (length sortedPoints) - 1 then
        (if i + 1 < length sortedPoints then
           (let startPoint = sortedPoints ! i;
                endPoint = sortedPoints ! (i + 1)
            in pairLoop sortedPoints (i + 2)
                 (durations @ [\<lparr>startId = id' startPoint, endId = id' endPoint,
                                duration = time endPoint - time startPoint\<rparr>]))
         else pairLoop sortedPoints (i + 2) durations)
      else durations)"
  by pat_completeness auto
termination
  by (relation "measure (\<lambda>(sortedPoints, i, durations). length sortedPoints - i)") auto

declare pairLoop.simps [simp del]

definition calculateDurations :: "TimePoint list \<Rightarrow> DurationPair list" where
  "calculateDurations timePoints = pairLoop (sortByTime timePoints) 0 []"

text \<open>
  \<open>calculateTotalDuration\<close>; the mode \<open>isAdvancedMode\<close> and the points are the
  component's props. \<open>reduce((total, current) => total + current.duration, 0)\<close> is a
  left fold.
\<close>

definition calculateTotalDuration :: "bool \<Rightarrow> TimePoint list \<Rightarrow> real" where
  "calculateTotalDuration isAdvancedMode timePoints =
     (if length timePoints < 2 then 0
      else if isAdvancedMode then
        foldl (\<lambda>total current. total + duration current) 0 (calculateDurations timePoints)
      else
        (let sortedPoints = sortByTime timePoints
         in time (sortedPoints ! (length sortedPoints - 1)) - time (sortedPoints ! 0)))"

text \<open>\<open>const estimatedDuration = totalDuration * 0.78\<close>, computed in both modes.\<close>

definition estimatedDuration :: "bool \<Rightarrow> TimePoint list \<Rightarrow> real" where
  "estimatedDuration isAdvancedMode timePoints =
     calculateTotalDuration isAdvancedMode timePoints * 0.78"

section \<open>The store (src/App.tsx)\<close>

text \<open>
  The state of \<open>App\<close> that the operations read and write. Each operation takes what it
  reads from its environment as arguments: \<open>now\<close> is the value of \<open>Date.now()\<close>, and
  \<open>video\<close> is \<open>None\<close> when \<open>videoRef.current\<close> is null and otherwise the video
  element's \<open>currentTime\<close>.
\<close>

record AppState =
  timePoints :: "TimePoint list"
  isAdvancedMode :: bool

definition initialState :: AppState where
  "initialState = \<lparr>timePoints = [], isAdvancedMode = False\<rparr>"

definition recordCurrentTime :: "nat \<Rightarrow> real option \<Rightarrow> AppState \<Rightarrow> AppState" where
  "recordCurrentTime now video st =
     (case video of
        None \<Rightarrow> st
      | Some currentTime \<Rightarrow>
          (let newPoint = \<lparr>id' = toString now, time = currentTime,
                           label = toString (length (timePoints st) + 1)\<rparr>;
               updatedPoints = sortByTime (timePoints st @ [newPoint])
           in st\<lparr>timePoints := updatedPoints\<rparr>))"

text \<open>The point \<open>addTimePoint\<close> builds; \<open>label || `Point ${n + 1}`\<close> falls back on the
  empty string.\<close>

definition newPointOf :: "string \<Rightarrow> nat \<Rightarrow> real \<Rightarrow> AppState \<Rightarrow> TimePoint" where
  "newPointOf lbl now currentTime st =
     \<lparr>id' = toString now, time = currentTime,
      label = (if lbl \<noteq> [] then lbl
               else ''Point '' @ toString (length (timePoints st) + 1))\<rparr>"

definition addTimePoint :: "string \<Rightarrow> nat \<Rightarrow> real option \<Rightarrow> AppState \<Rightarrow> AppState" where
  "addTimePoint lbl now video st =
     (case video of
        None \<Rightarrow> st
      | Some currentTime \<Rightarrow>
          (let newPoint = newPointOf lbl now currentTime st
           in if \<not> isAdvancedMode st then
                (if length (timePoints st) = 0 then st\<lparr>timePoints := [newPoint]\<rparr>
                 else if length (timePoints st) = 1 then
                   st\<lparr>timePoints := sortByTime (timePoints st @ [newPoint])\<rparr>
                 else if length (timePoints st) = 2 then
                   (let beginning = timePoints st ! 0
                    in st\<lparr>timePoints := sortByTime [beginning, newPoint]\<rparr>)
                 else st)
              else st\<lparr>timePoints := sortByTime (timePoints st @ [newPoint])\<rparr>))"

definition removeTimePoint :: "string \<Rightarrow> AppState \<Rightarrow> AppState" where
  "removeTimePoint i st = st\<lparr>timePoints := filter (\<lambda>point. id' point \<noteq> i) (timePoints st)\<rparr>"

text \<open>\<open>{ ...point, label, time: time ?? point.time }\<close>; the optional argument \<open>time\<close>
  is \<open>None\<close> when it is not passed.\<close>

definition updateTimePoint :: "string \<Rightarrow> string \<Rightarrow> real option \<Rightarrow> AppState \<Rightarrow> AppState" where
  "updateTimePoint i lbl newTime st =
     st\<lparr>timePoints :=
          map (\<lambda>point. if id' point = i
                        then point\<lparr>label := lbl,
                                   time := (case newTime of Some t \<Rightarrow> t | None \<Rightarrow> time point)\<rparr>
                        else point)
              (timePoints st)\<rparr>"

definition resetTimePoints :: "AppState \<Rightarrow> AppState" where
  "resetTimePoints st = st\<lparr>timePoints := []\<rparr>"

definition toggleMode :: "AppState \<Rightarrow> AppState" where
  "toggleMode st = st\<lparr>isAdvancedMode := \<not> isAdvancedMode st\<rparr>"

text \<open>A session is a sequence of calls, each run to completion on the state the
  previous one left.\<close>

datatype call =
    Record nat "real option"
  | Add string nat "real option"
  | Update string string "real option"
  | Remove string
  | Reset
  | ToggleMode

fun step :: "AppState \<Rightarrow> call \<Rightarrow> AppState" where
  "step st (Record now video) = recordCurrentTime now video st"
| "step st (Add lbl now video) = addTimePoint lbl now video st"
| "step st (Update i lbl newTime) = updateTimePoint i lbl newTime st"
| "step st (Remove i) = removeTimePoint i st"
| "step st Reset = resetTimePoints st"
| "step st ToggleMode = toggleMode st"

definition run :: "call list \<Rightarrow> AppState \<Rightarrow> AppState" where
  "run calls st = foldl step st calls"

section \<open>The pairing as the specification words it\<close>

text \<open>The partition of a sequence into the consecutive pairs (0,1), (2,3), (4,5), ...,
  a last unpaired element being dropped.\<close>

fun pairUp :: "TimePoint list \<Rightarrow> DurationPair list" where
  "pairUp (a # b # rest) =
     \<lparr>startId = id' a, endId = id' b, duration = time b - time a\<rparr> # pairUp rest"
| "pairUp [a] = []"
| "pairUp [] = []"

text \<open>The differences between the members of the consecutive pairs of a sequence of
  numbers.\<close>

fun gaps :: "real list \<Rightarrow> real list" where
  "gaps (a # b # rest) = (b - a) # gaps rest"
| "gaps [a] = []"
| "gaps [] = []"

section \<open>Insertion order\<close>

text \<open>
  The point a call builds and hands to the store (none when the call is not
  \<open>recordCurrentTime\<close> or \<open>addTimePoint\<close>, or when there is no video element), and the
  points a sequence of calls builds, in the order of the calls. They are used to state
  that the store keeps points of equal time in insertion order.
\<close>

fun created :: "AppState \<Rightarrow> call \<Rightarrow> TimePoint list" where
  "created st (Record now (Some currentTime)) =
     [\<lparr>id' = toString now, time = currentTime,
       label = toString (length (timePoints st) + 1)\<rparr>]"
| "created st (Add lbl now (Some currentTime)) = [newPointOf lbl now currentTime st]"
| "created st c = []"

fun insertions :: "AppState \<Rightarrow> call list \<Rightarrow> TimePoint list" where
  "insertions st [] = []"
| "insertions st (c # cs) = created st c @ insertions (step st c) cs"

fun isUpdate :: "call \<Rightarrow> bool" where
  "isUpdate (Update i lbl newTime) = True"
| "isUpdate c = False"

text \<open>The values of \<open>Date.now()\<close> a call reads to build a point.\<close>

fun clockReads :: "call \<Rightarrow> nat list" where
  "clockReads (Record now (Some currentTime)) = [now]"
| "clockReads (Add lbl now (Some currentTime)) = [now]"
| "clockReads c = []"

section \<open>Pairing\<close>

lemma pairLoop_pairUp: "pairLoop sp i acc = acc @ pairUp (drop i sp)"
proof (induction sp i acc rule: pairLoop.induct)
  case (1 sp i acc)
  show ?case
  proof (cases "i + 1 < length sp")
    case True
    then have d: "drop i sp = sp ! i # sp ! (i + 1) # drop (i + 2) sp"
      by (metis Cons_nth_drop_Suc Suc_eq_plus1 add_2_eq_Suc' add_lessD1)
    from True have c: "int i < int (length sp) - 1" by simp
    have "pairLoop sp i acc = pairLoop sp (i + 2)
                 (acc @ [\<lparr>startId = id' (sp ! i), endId = id' (sp ! (i+1)),
                                duration = time (sp ! (i+1)) - time (sp ! i)\<rparr>])"
      using True c by (subst pairLoop.simps) (simp only: if_True Let_def)
    also have "\<dots> = (acc @ [\<lparr>startId = id' (sp ! i), endId = id' (sp ! (i+1)),
                                duration = time (sp ! (i+1)) - time (sp ! i)\<rparr>]) @ pairUp (drop (i + 2) sp)"
      using "1.IH"(1)[OF c True refl refl] .
    also have "\<dots> = acc @ pairUp (drop i sp)"
      by (simp only: d pairUp.simps append_assoc append_Cons append_Nil)
    finally show ?thesis .
  next
    case False
    then have "length (drop i sp) \<le> 1" by simp
    then have "pairUp (drop i sp) = []"
      by (cases "drop i sp" rule: pairUp.cases) simp_all
    moreover from False have "\<not> int i < int (length sp) - 1" by simp
    ultimately show ?thesis
      by (subst pairLoop.simps) simp
  qed
qed

lemma calculateDurations_pairUp: "calculateDurations ps = pairUp (sortByTime ps)"
  by (simp add: calculateDurations_def pairLoop_pairUp)

lemma length_pairUp: "length (pairUp xs) = length xs div 2"
  by (induction xs rule: pairUp.induct) simp_all

lemma nth_pairUp:
  "k < length xs div 2 \<Longrightarrow>
   pairUp xs ! k = \<lparr>startId = id' (xs ! (2 * k)), endId = id' (xs ! (2 * k + 1)),
                   duration = time (xs ! (2 * k + 1)) - time (xs ! (2 * k))\<rparr>"
proof (induction xs arbitrary: k rule: pairUp.induct)
  case (1 a b rest)
  then show ?case by (cases k) simp_all
qed simp_all

lemma map_duration_pairUp: "map duration (pairUp xs) = gaps (map time xs)"
  by (induction xs rule: pairUp.induct) simp_all

lemma map_insort_key: "map f (insort_key f x xs) = insort (f x) (map f xs)"
  by (induction xs) simp_all

lemma map_sort_key: "map f (sort_key f xs) = sort (map f xs)"
  by (induction xs) (simp_all add: map_insort_key)

lemma map_time_sortByTime: "map time (sortByTime ps) = sort (map time ps)"
  by (simp add: sortByTime_def map_sort_key)

lemma durations_perm:
  assumes "mset ps' = mset ps"
  shows "map duration (calculateDurations ps') = map duration (calculateDurations ps)"
proof -
  from assms have "mset (map time ps') = mset (map time ps)" by simp
  then have "sort (map time ps') = sort (map time ps)"
    by (metis mset_sort properties_for_sort sorted_sort)
  then show ?thesis
    by (simp add: calculateDurations_pairUp map_duration_pairUp map_time_sortByTime)
qed

lemma sortByTime_four:
  assumes "mset ps = mset [a, b, c, d]" "time a < time b" "time b < time c" "time c < time d"
  shows "sortByTime ps = [a, b, c, d]"
  unfolding sortByTime_def
proof (rule sort_key_inj_key_eq)
  show "mset ps = mset [a, b, c, d]" by fact
  have "set ps = {a, b, c, d}" using assms(1) by (metis mset_eq_setD list.simps(15) empty_set)
  then show "inj_on time (set ps)" using assms(2-4) by (auto simp: inj_on_def)
  show "sorted (map time [a, b, c, d])" using assms(2-4) by simp
qed

lemma sortByTime_three:
  assumes "mset ps = mset [a, b, c]" "time a < time b" "time b < time c"
  shows "sortByTime ps = [a, b, c]"
  unfolding sortByTime_def
proof (rule sort_key_inj_key_eq)
  show "mset ps = mset [a, b, c]" by fact
  have "set ps = {a, b, c}" using assms(1) by (metis mset_eq_setD list.simps(15) empty_set)
  then show "inj_on time (set ps)" using assms(2-3) by (auto simp: inj_on_def)
  show "sorted (map time [a, b, c])" using assms(2-3) by simp
qed


text \<open>
  Claim C1. \<open>calculateDurations\<close> sorts the points ascending by time (the sorted
  sequence is a permutation of the input) and returns the consecutive pairs (0,1), (2,3),
  ... of the sorted sequence: one pair for every two points, a last unpaired point being
  dropped, pair \<open>k\<close> made of the sorted points \<open>2k\<close> and \<open>2k+1\<close> with the
  difference of their times as duration. The durations do not depend on the order in
  which the points are given. Four points with times 1, 3, 5, 9, in any order, give the
  pairs 1 to 3 (duration 2) and 5 to 9 (duration 4); three points with times 0, 2, 5
  give the single pair 0 to 2 (duration 2).
\<close>

theorem calculateDurations_sorted_pairs:
  "sorted (map time (sortByTime ps)) \<and> mset (sortByTime ps) = mset ps
   \<and> calculateDurations ps = pairUp (sortByTime ps)
   \<and> length (calculateDurations ps) = length ps div 2
   \<and> (\<forall>k < length ps div 2.
         calculateDurations ps ! k =
           \<lparr>startId = id' (sortByTime ps ! (2 * k)), endId = id' (sortByTime ps ! (2 * k + 1)),
            duration = time (sortByTime ps ! (2 * k + 1)) - time (sortByTime ps ! (2 * k))\<rparr>)
   \<and> (mset qs = mset ps \<longrightarrow>
         map duration (calculateDurations qs) = map duration (calculateDurations ps))
   \<and> (mset ps4 = mset [a, b, c, d] \<and> time a = 1 \<and> time b = 3 \<and> time c = 5 \<and> time d = 9 \<longrightarrow>
         calculateDurations ps4 =
           [\<lparr>startId = id' a, endId = id' b, duration = 2\<rparr>,
            \<lparr>startId = id' c, endId = id' d, duration = 4\<rparr>])
   \<and> (mset ps3 = mset [e, f, g] \<and> time e = 0 \<and> time f = 2 \<and> time g = 5 \<longrightarrow>
         calculateDurations ps3 = [\<lparr>startId = id' e, endId = id' f, duration = 2\<rparr>])"
proof -
  have s: "sorted (map time (sortByTime ps))" "mset (sortByTime ps) = mset ps"
    by (simp_all add: sortByTime_def)
  have l: "length (calculateDurations ps) = length ps div 2"
    by (simp add: calculateDurations_pairUp length_pairUp sortByTime_def)
  have n: "\<forall>k < length ps div 2.
         calculateDurations ps ! k =
           \<lparr>startId = id' (sortByTime ps ! (2 * k)), endId = id' (sortByTime ps ! (2 * k + 1)),
            duration = time (sortByTime ps ! (2 * k + 1)) - time (sortByTime ps ! (2 * k))\<rparr>"
    using nth_pairUp[of _ "sortByTime ps"]
    by (simp add: calculateDurations_pairUp sortByTime_def)
  have four: "calculateDurations ps4 =
           [\<lparr>startId = id' a, endId = id' b, duration = 2\<rparr>,
            \<lparr>startId = id' c, endId = id' d, duration = 4\<rparr>]"
    if "mset ps4 = mset [a, b, c, d]" "time a = 1" "time b = 3" "time c = 5" "time d = 9"
  proof -
    have "sortByTime ps4 = [a, b, c, d]"
      using that by (intro sortByTime_four) simp_all
    then show ?thesis using that by (simp add: calculateDurations_pairUp)
  qed
  have three: "calculateDurations ps3 = [\<lparr>startId = id' e, endId = id' f, duration = 2\<rparr>]"
    if "mset ps3 = mset [e, f, g]" "time e = 0" "time f = 2" "time g = 5"
  proof -
    have "sortByTime ps3 = [e, f, g]"
      using that by (intro sortByTime_three) simp_all
    then show ?thesis using that by (simp add: calculateDurations_pairUp)
  qed
  show ?thesis
    using s l n four three durations_perm[of qs ps] calculateDurations_pairUp[of ps]
    by blast
qed

theorem calculateDurations_sorted_pairs_witness:
  "calculateDurations
     [\<lparr>id' = ''d'', time = 9, label = ''4''\<rparr>, \<lparr>id' = ''a'', time = 1, label = ''1''\<rparr>,
      \<lparr>id' = ''c'', time = 5, label = ''3''\<rparr>, \<lparr>id' = ''b'', time = 3, label = ''2''\<rparr>] =
     [\<lparr>startId = ''a'', endId = ''b'', duration = 2\<rparr>,
      \<lparr>startId = ''c'', endId = ''d'', duration = 4\<rparr>]
   \<and> calculateDurations
     [\<lparr>id' = ''g'', time = 5, label = ''3''\<rparr>, \<lparr>id' = ''e'', time = 0, label = ''1''\<rparr>,
      \<lparr>id' = ''f'', time = 2, label = ''2''\<rparr>] =
     [\<lparr>startId = ''e'', endId = ''f'', duration = 2\<rparr>]
   \<and> map duration (calculateDurations
     [\<lparr>id' = ''f'', time = 2, label = ''2''\<rparr>, \<lparr>id' = ''e'', time = 0, label = ''1''\<rparr>]) =
     map duration (calculateDurations
     [\<lparr>id' = ''e'', time = 0, label = ''1''\<rparr>, \<lparr>id' = ''f'', time = 2, label = ''2''\<rparr>])
   \<and> calculateDurations
      [\<lparr>id' = ''e'', time = 0, label = ''1''\<rparr>, \<lparr>id' = ''f'', time = 2, label = ''2''\<rparr>] ! 0 =
      \<lparr>startId = ''e'', endId = ''f'', duration = 2\<rparr>"
  using calculateDurations_sorted_pairs
    [of "[\<lparr>id' = ''e'', time = 0, label = ''1''\<rparr>, \<lparr>id' = ''f'', time = 2, label = ''2''\<rparr>]"
        "[\<lparr>id' = ''f'', time = 2, label = ''2''\<rparr>, \<lparr>id' = ''e'', time = 0, label = ''1''\<rparr>]"
        "[\<lparr>id' = ''d'', time = 9, label = ''4''\<rparr>, \<lparr>id' = ''a'', time = 1, label = ''1''\<rparr>,
          \<lparr>id' = ''c'', time = 5, label = ''3''\<rparr>, \<lparr>id' = ''b'', time = 3, label = ''2''\<rparr>]"
        "\<lparr>id' = ''a'', time = 1, label = ''1''\<rparr>" "\<lparr>id' = ''b'', time = 3, label = ''2''\<rparr>"
        "\<lparr>id' = ''c'', time = 5, label = ''3''\<rparr>" "\<lparr>id' = ''d'', time = 9, label = ''4''\<rparr>"
        "[\<lparr>id' = ''g'', time = 5, label = ''3''\<rparr>, \<lparr>id' = ''e'', time = 0, label = ''1''\<rparr>,
          \<lparr>id' = ''f'', time = 2, label = ''2''\<rparr>]"
        "\<lparr>id' = ''e'', time = 0, label = ''1''\<rparr>" "\<lparr>id' = ''f'', time = 2, label = ''2''\<rparr>"
        "\<lparr>id' = ''g'', time = 5, label = ''3''\<rparr>"]
  by (simp add: sortByTime_def)

section \<open>Totals\<close>

lemma foldl_plus_sum_list:
  "foldl (\<lambda>total current. total + f current) (a::real) xs = a + sum_list (map f xs)"
  by (induction xs arbitrary: a) simp_all

lemma sorted_first_Min:
  fixes ts :: "real list"
  assumes "sorted ts" "ts \<noteq> []"
  shows "ts ! 0 = Min (set ts)"
proof -
  have "\<forall>y \<in> set ts. ts ! 0 \<le> y"
    using assms by (cases ts) simp_all
  moreover have "ts ! 0 \<in> set ts" using assms(2) by simp
  ultimately show ?thesis by (intro Min_eqI[symmetric]) auto
qed

lemma sorted_last_Max:
  fixes ts :: "real list"
  assumes "sorted ts" "ts \<noteq> []"
  shows "ts ! (length ts - 1) = Max (set ts)"
proof -
  have "y \<le> ts ! (length ts - 1)" if "y \<in> set ts" for y
  proof -
    from that obtain i where "i < length ts" "ts ! i = y"
      by (auto simp: in_set_conv_nth)
    then show ?thesis using assms(1) sorted_nth_mono[of ts i "length ts - 1"] by auto
  qed
  moreover have "ts ! (length ts - 1) \<in> set ts" using assms(2) by simp
  ultimately show ?thesis by (intro Max_eqI[symmetric]) auto
qed

lemma total_advanced: "calculateTotalDuration True ps = sum_list (map duration (calculateDurations ps))"
proof (cases "length ps < 2")
  case True
  then have "length (calculateDurations ps) = 0"
    by (simp add: calculateDurations_pairUp length_pairUp sortByTime_def)
  then show ?thesis using True by (simp add: calculateTotalDuration_def)
next
  case False
  then show ?thesis by (simp add: calculateTotalDuration_def foldl_plus_sum_list)
qed

lemma total_simple:
  assumes "2 \<le> length ps"
  shows "calculateTotalDuration False ps = Max (time ` set ps) - Min (time ` set ps)"
    and "calculateTotalDuration False ps = time (last (sortByTime ps)) - time (hd (sortByTime ps))"
proof -
  let ?sp = "sortByTime ps"
  let ?ts = "map time ?sp"
  have len: "length ?sp = length ps" by (simp add: sortByTime_def)
  have ne: "?ts \<noteq> []" "?sp \<noteq> []" using assms len by auto
  have srt: "sorted ?ts" by (simp add: sortByTime_def)
  have st: "set ?ts = time ` set ps" by (simp add: sortByTime_def)
  have "0 < length ?sp" "length ?sp - 1 < length ?sp" using assms len by auto
  then have "?ts ! 0 = time (?sp ! 0)" "?ts ! (length ?ts - 1) = time (?sp ! (length ?sp - 1))"
    by (simp_all only: nth_map length_map)
  then have v: "calculateTotalDuration False ps = ?ts ! (length ?ts - 1) - ?ts ! 0"
    using assms by (simp add: calculateTotalDuration_def Let_def)
  show "calculateTotalDuration False ps = Max (time ` set ps) - Min (time ` set ps)"
    using v sorted_first_Min[OF srt ne(1)] sorted_last_Max[OF srt ne(1)] st by simp
  show "calculateTotalDuration False ps = time (last ?sp) - time (hd ?sp)"
    using assms len ne(2)
    by (simp add: calculateTotalDuration_def Let_def last_conv_nth hd_conv_nth)
qed

lemma total_degenerate: "length ps < 2 \<Longrightarrow> calculateTotalDuration adv ps = 0"
  by (simp add: calculateTotalDuration_def)

lemma sort_times_eq:
  assumes "mset (map time ps) = mset ts" "sorted ts"
  shows "map time (sortByTime ps) = ts"
  using assms by (simp add: map_time_sortByTime properties_for_sort)

text \<open>
  Claim C2. In advanced mode \<open>calculateTotalDuration\<close> is the sum of the durations of
  the pairs of \<open>calculateDurations\<close> (6 for points with times 0, 2, 5, 9); in simple
  mode, with two points or more, it is the largest time minus the smallest, which is the
  last minus the first of the sorted sequence; with fewer than two points it is 0 in
  either mode.
\<close>

theorem calculateTotalDuration_modes:
  "calculateTotalDuration True ps = sum_list (map duration (calculateDurations ps))
   \<and> (mset (map time ps4) = mset [0, 2, 5, 9] \<longrightarrow> calculateTotalDuration True ps4 = 6)
   \<and> (2 \<le> length ps \<longrightarrow>
         calculateTotalDuration False ps = Max (time ` set ps) - Min (time ` set ps)
         \<and> calculateTotalDuration False ps
             = time (last (sortByTime ps)) - time (hd (sortByTime ps)))
   \<and> (length ps < 2 \<longrightarrow> calculateTotalDuration adv ps = 0)"
proof -
  have ex: "calculateTotalDuration True ps4 = 6" if h: "mset (map time ps4) = mset [0, 2, 5, 9]"
  proof -
    have "map time (sortByTime ps4) = [0, 2, 5, 9]"
      using h by (rule sort_times_eq) simp
    then have "map duration (calculateDurations ps4) = gaps [0, 2, 5, 9]"
      by (simp add: calculateDurations_pairUp map_duration_pairUp)
    then show ?thesis by (simp add: total_advanced)
  qed
  show ?thesis
    using total_advanced[of ps] ex total_simple[of ps] total_degenerate[of ps adv]
    by blast
qed

theorem calculateTotalDuration_modes_witness:
  "calculateTotalDuration True
     [\<lparr>id' = ''c'', time = 5, label = ''3''\<rparr>, \<lparr>id' = ''a'', time = 0, label = ''1''\<rparr>,
      \<lparr>id' = ''d'', time = 9, label = ''4''\<rparr>, \<lparr>id' = ''b'', time = 2, label = ''2''\<rparr>] = 6
   \<and> calculateTotalDuration False
     [\<lparr>id' = ''c'', time = 5, label = ''3''\<rparr>, \<lparr>id' = ''a'', time = 1, label = ''1''\<rparr>,
      \<lparr>id' = ''b'', time = 2, label = ''2''\<rparr>] = Max {5, 1, 2} - Min {5, 1, 2}
   \<and> calculateTotalDuration False [\<lparr>id' = ''c'', time = 5, label = ''3''\<rparr>] = 0"
  using calculateTotalDuration_modes
    [of "[\<lparr>id' = ''c'', time = 5, label = ''3''\<rparr>, \<lparr>id' = ''a'', time = 1, label = ''1''\<rparr>,
          \<lparr>id' = ''b'', time = 2, label = ''2''\<rparr>]"
        "[\<lparr>id' = ''c'', time = 5, label = ''3''\<rparr>, \<lparr>id' = ''a'', time = 0, label = ''1''\<rparr>,
          \<lparr>id' = ''d'', time = 9, label = ''4''\<rparr>, \<lparr>id' = ''b'', time = 2, label = ''2''\<rparr>]"
        False]
    calculateTotalDuration_modes [of "[\<lparr>id' = ''c'', time = 5, label = ''3''\<rparr>]" _ False]
  by simp

text \<open>
  Claim C5. With two points or more, the simple-mode estimate is the simple-mode total
  (largest time minus smallest time) multiplied by 0.78. For points with times 0 and 9
  the total is 9 and the estimate is within \<open>10\<^sup>-\<^sup>9\<close> of 7.02 (with the numbers read as
  reals it is 7.02).
\<close>

theorem estimatedDuration_simple:
  "(2 \<le> length ps \<longrightarrow>
      estimatedDuration False ps = calculateTotalDuration False ps * 0.78
      \<and> estimatedDuration False ps = (Max (time ` set ps) - Min (time ` set ps)) * 0.78)
   \<and> (mset (map time ps2) = mset [0, 9] \<longrightarrow>
         calculateTotalDuration False ps2 = 9
         \<and> \<bar>estimatedDuration False ps2 - 7.02\<bar> \<le> 1 / 10 ^ 9)"
proof -
  have ex: "calculateTotalDuration False ps2 = 9" if h: "mset (map time ps2) = mset [0, 9]"
  proof -
    from h have "size (mset (map time ps2)) = 2" by simp
    then have len: "length ps2 = 2" by simp
    have "set (map time ps2) = {0, 9}" using h by (metis mset_eq_setD list.simps(15) empty_set)
    then have "time ` set ps2 = {0, 9}" by simp
    then show ?thesis using total_simple(1)[of ps2] len by simp
  qed
  then have "mset (map time ps2) = mset [0, 9] \<Longrightarrow> \<bar>estimatedDuration False ps2 - 7.02\<bar> \<le> 1 / 10 ^ 9"
    by (simp add: estimatedDuration_def)
  then show ?thesis
    using ex total_simple(1)[of ps] by (auto simp: estimatedDuration_def)
qed

theorem estimatedDuration_simple_witness:
  "estimatedDuration False
     [\<lparr>id' = ''b'', time = 9, label = ''End''\<rparr>, \<lparr>id' = ''a'', time = 0, label = ''Start''\<rparr>]
     = (Max {9, 0} - Min {9, 0}) * 0.78
   \<and> calculateTotalDuration False
     [\<lparr>id' = ''b'', time = 9, label = ''End''\<rparr>, \<lparr>id' = ''a'', time = 0, label = ''Start''\<rparr>] = 9
   \<and> \<bar>estimatedDuration False
     [\<lparr>id' = ''b'', time = 9, label = ''End''\<rparr>, \<lparr>id' = ''a'', time = 0, label = ''Start''\<rparr>]
       - 7.02\<bar> \<le> 1 / 10 ^ 9"
  using estimatedDuration_simple
    [of "[\<lparr>id' = ''b'', time = 9, label = ''End''\<rparr>, \<lparr>id' = ''a'', time = 0, label = ''Start''\<rparr>]"
        "[\<lparr>id' = ''b'', time = 9, label = ''End''\<rparr>, \<lparr>id' = ''a'', time = 0, label = ''Start''\<rparr>]"]
  by simp

text \<open>
  The reals above leave out the rounding of the doubles. Under the usual error bound of
  binary64 arithmetic (a constant and the result of an operation are each within a
  relative error of \<open>2\<^sup>-\<^sup>5\<^sup>3\<close> of the exact value), the product computed for the total 9,
  which is a double as it stands, is still within \<open>10\<^sup>-\<^sup>9\<close> of 7.02: here \<open>c\<close> is the
  double written \<open>0.78\<close> and \<open>r\<close> the double the multiplication returns.
\<close>

lemma rounded_estimate_within_tolerance:
  fixes c r :: real
  assumes c: "\<bar>c - 0.78\<bar> \<le> 0.78 / 2 ^ 53"
    and r: "\<bar>r - 9 * c\<bar> \<le> \<bar>9 * c\<bar> / 2 ^ 53"
  shows "\<bar>r - 7.02\<bar> \<le> 1 / 10 ^ 9"
proof -
  define e :: real where "e = 1 / 10 ^ 15"
  have p: "(10::real) ^ 15 \<le> 2 ^ 53" by simp
  have u: "1 / (2::real) ^ 53 \<le> e"
    unfolding e_def using p by (intro divide_left_mono) simp_all
  have e: "0 \<le> e" "e \<le> 1 / 100" "18 * e \<le> 1 / 10 ^ 9" by (simp_all add: e_def)
  have "\<bar>c - 78 / 100\<bar> \<le> (78 / 100) * (1 / 2 ^ 53)" using c by simp
  also have "\<dots> \<le> (78 / 100) * e" using u by (intro mult_left_mono) simp_all
  also have "\<dots> \<le> e" using e(1) by simp
  finally have c': "c - 78 / 100 \<le> e" "- e \<le> c - 78 / 100" by (simp_all add: abs_le_iff)
  with e(2) have cb: "0 \<le> 9 * c" "9 * c \<le> 9" by linarith+
  then have "\<bar>9 * c\<bar> = 9 * c" by simp
  then have "\<bar>r - 9 * c\<bar> \<le> (9 * c) * (1 / 2 ^ 53)" using r by simp
  also have "\<dots> \<le> (9 * c) * e" using u cb(1) by (intro mult_left_mono)
  also have "\<dots> \<le> 9 * e" using cb(2) e(1) by (intro mult_right_mono)
  finally have r': "r - 9 * c \<le> 9 * e" "- (9 * e) \<le> r - 9 * c" by (simp_all add: abs_le_iff)
  from c' r' have "r - 702 / 100 \<le> 18 * e" "- (18 * e) \<le> r - 702 / 100" by linarith+
  then have "\<bar>r - 702 / 100\<bar> \<le> 18 * e" by (simp add: abs_le_iff)
  then have "\<bar>r - 702 / 100\<bar> \<le> 1 / 10 ^ 9" using e(3) by (rule order_trans)
  then show ?thesis by simp
qed

section \<open>The store\<close>

lemma sorted_sortByTime: "sorted (map time (sortByTime xs))"
  by (simp add: sortByTime_def)

lemma length_sortByTime: "length (sortByTime xs) = length xs"
  by (simp add: sortByTime_def)

lemma filter_sortByTime:
  "filter (\<lambda>p. time p = k) (sortByTime xs) = filter (\<lambda>p. time p = k) xs"
  by (simp add: sortByTime_def sort_key_stable)

lemma run_Nil: "run [] st = st"
  by (simp add: run_def)

lemma run_Cons: "run (c # cs) st = run cs (step st c)"
  by (simp add: run_def)

text \<open>The three outcomes of \<open>addTimePoint\<close> when a video element is present.\<close>

lemma addTimePoint_result:
  "timePoints (addTimePoint lbl now (Some t) st)
     = sortByTime (timePoints st @ [newPointOf lbl now t st])
   \<or> (\<exists>p1 p2. timePoints st = [p1, p2]
         \<and> timePoints (addTimePoint lbl now (Some t) st)
             = sortByTime [p1, newPointOf lbl now t st])
   \<or> timePoints (addTimePoint lbl now (Some t) st) = timePoints st"
proof (cases "isAdvancedMode st")
  case True
  then show ?thesis by (simp add: addTimePoint_def Let_def)
next
  case False
  show ?thesis
  proof (cases "timePoints st")
    case Nil
    then show ?thesis using False by (simp add: addTimePoint_def Let_def sortByTime_def)
  next
    case c1: (Cons p1 r1)
    show ?thesis
    proof (cases r1)
      case Nil
      then show ?thesis using False c1 by (simp add: addTimePoint_def Let_def)
    next
      case c2: (Cons p2 r2)
      show ?thesis
      proof (cases r2)
        case Nil
        then show ?thesis using False c1 c2 by (simp add: addTimePoint_def Let_def)
      next
        case (Cons p3 r3)
        then show ?thesis using False c1 c2 by (simp add: addTimePoint_def Let_def)
      qed
    qed
  qed
qed

lemma length_addTimePoint_simple:
  "\<not> isAdvancedMode st \<Longrightarrow> length (timePoints st) \<le> 2 \<Longrightarrow>
   length (timePoints (addTimePoint lbl now video st)) \<le> 2"
  by (cases video) (simp_all add: addTimePoint_def Let_def length_sortByTime)

lemma mode_addTimePoint: "isAdvancedMode (addTimePoint lbl now video st) = isAdvancedMode st"
  by (cases video) (simp_all add: addTimePoint_def Let_def)

lemma adds_capacity:
  "\<not> isAdvancedMode st \<Longrightarrow> length (timePoints st) \<le> 2 \<Longrightarrow>
   \<not> isAdvancedMode (run (map (\<lambda>(lbl, now, video). Add lbl now video) adds) st)
   \<and> length (timePoints (run (map (\<lambda>(lbl, now, video). Add lbl now video) adds) st)) \<le> 2"
proof (induction adds arbitrary: st)
  case Nil
  then show ?case by (simp add: run_Nil)
next
  case (Cons a adds)
  obtain lbl now video where a: "a = (lbl, now, video)" by (cases a)
  have "\<not> isAdvancedMode (addTimePoint lbl now video st)"
    using Cons.prems(1) by (simp add: mode_addTimePoint)
  moreover have "length (timePoints (addTimePoint lbl now video st)) \<le> 2"
    using Cons.prems by (rule length_addTimePoint_simple)
  ultimately show ?case
    using Cons.IH[of "addTimePoint lbl now video st"] by (simp add: a run_Cons)
qed

text \<open>
  Claim C3. From the empty store in simple mode, any sequence of \<open>addTimePoint\<close> calls
  leaves at most two points in the store. With a video element present: on the empty
  store the new point becomes the only element; on a store of one point the new point
  is appended and the two are sorted; on a store of two points the result again has two
  points, the first stored point and the new one, so one stored point is replaced.
\<close>

theorem simple_mode_capacity:
  "length (timePoints (run (map (\<lambda>(lbl, now, video). Add lbl now video) adds) initialState)) \<le> 2
   \<and> (\<not> isAdvancedMode st \<and> timePoints st = [] \<longrightarrow>
        timePoints (addTimePoint lbl now (Some t) st) = [newPointOf lbl now t st])
   \<and> (\<not> isAdvancedMode st1 \<and> timePoints st1 = [p] \<longrightarrow>
        timePoints (addTimePoint lbl now (Some t) st1) = sortByTime ([p] @ [newPointOf lbl now t st1]))
   \<and> (\<not> isAdvancedMode st2 \<and> timePoints st2 = [p1, p2] \<longrightarrow>
        timePoints (addTimePoint lbl now (Some t) st2) = sortByTime [p1, newPointOf lbl now t st2]
        \<and> length (timePoints (addTimePoint lbl now (Some t) st2)) = 2)"
proof -
  have "length (timePoints (run (map (\<lambda>(lbl, now, video). Add lbl now video) adds) initialState)) \<le> 2"
    using adds_capacity[of initialState adds] by (simp add: initialState_def)
  then show ?thesis
    by (simp add: addTimePoint_def Let_def length_sortByTime)
qed


theorem simple_mode_capacity_witness:
  "length (timePoints (run (map (\<lambda>(lbl, now, video). Add lbl now video)
       [(''Start'', 1000, Some 4), ([], 2000, Some 1), (''x'', 3000, Some 2), (''y'', 4000, None)])
     initialState)) \<le> 2
   \<and> timePoints (addTimePoint ''Start'' 1000 (Some 4) initialState)
       = [\<lparr>id' = ''1000'', time = 4, label = ''Start''\<rparr>]
   \<and> timePoints (addTimePoint [] 2000 (Some 1)
        \<lparr>timePoints = [\<lparr>id' = ''1000'', time = 4, label = ''Start''\<rparr>], isAdvancedMode = False\<rparr>)
       = [\<lparr>id' = ''2000'', time = 1, label = ''Point 2''\<rparr>,
          \<lparr>id' = ''1000'', time = 4, label = ''Start''\<rparr>]
   \<and> timePoints (addTimePoint ''x'' 3000 (Some 2)
        \<lparr>timePoints = [\<lparr>id' = ''2000'', time = 1, label = ''Point 2''\<rparr>,
                       \<lparr>id' = ''1000'', time = 4, label = ''Start''\<rparr>], isAdvancedMode = False\<rparr>)
       = [\<lparr>id' = ''2000'', time = 1, label = ''Point 2''\<rparr>,
          \<lparr>id' = ''3000'', time = 2, label = ''x''\<rparr>]"
  using simple_mode_capacity
    [of "[(''Start'', 1000, Some 4), ([], 2000, Some 1), (''x'', 3000, Some 2), (''y'', 4000, None)]"
        initialState "''Start''" 1000 4]
    simple_mode_capacity
    [of "[]" initialState "[]" 2000 1
        "\<lparr>timePoints = [\<lparr>id' = ''1000'', time = 4, label = ''Start''\<rparr>], isAdvancedMode = False\<rparr>"
        "\<lparr>id' = ''1000'', time = 4, label = ''Start''\<rparr>"]
    simple_mode_capacity
    [of "[]" initialState "''x''" 3000 2 initialState undefined
        "\<lparr>timePoints = [\<lparr>id' = ''2000'', time = 1, label = ''Point 2''\<rparr>,
                       \<lparr>id' = ''1000'', time = 4, label = ''Start''\<rparr>], isAdvancedMode = False\<rparr>"
        "\<lparr>id' = ''2000'', time = 1, label = ''Point 2''\<rparr>"
        "\<lparr>id' = ''1000'', time = 4, label = ''Start''\<rparr>"]
  by (simp add: initialState_def newPointOf_def sortByTime_def toString.simps digitChar_def)

section \<open>Update and remove\<close>

text \<open>
  Claim C7. \<open>updateTimePoint X newLabel newTime\<close> keeps the length and the order of the
  sequence (it maps over it and does not sort): at every position, a point with id \<open>X\<close>
  becomes the same point with label \<open>newLabel\<close> and time \<open>newTime\<close>, or with its own
  time when no time is passed, and a point with another id is unchanged. So when the
  store contains a point with id \<open>X\<close>, the store read afterwards contains a point with
  id \<open>X\<close>, label \<open>newLabel\<close> and time \<open>newTime\<close>.
\<close>

theorem updateTimePoint_roundtrip:
  "length (timePoints (updateTimePoint X newLabel optTime st)) = length (timePoints st)
   \<and> map id' (timePoints (updateTimePoint X newLabel optTime st)) = map id' (timePoints st)
   \<and> isAdvancedMode (updateTimePoint X newLabel optTime st) = isAdvancedMode st
   \<and> (\<forall>i < length (timePoints st).
        (id' (timePoints st ! i) = X \<longrightarrow>
           timePoints (updateTimePoint X newLabel (Some newTime) st) ! i
             = (timePoints st ! i)\<lparr>label := newLabel, time := newTime\<rparr>
           \<and> timePoints (updateTimePoint X newLabel None st) ! i
             = (timePoints st ! i)\<lparr>label := newLabel\<rparr>)
        \<and> (id' (timePoints st ! i) \<noteq> X \<longrightarrow>
           timePoints (updateTimePoint X newLabel optTime st) ! i = timePoints st ! i))
   \<and> (X \<in> id' ` set (timePoints st) \<longrightarrow>
        (\<exists>p \<in> set (timePoints (updateTimePoint X newLabel (Some newTime) st)).
           id' p = X \<and> label p = newLabel \<and> time p = newTime))"
proof -
  have "\<exists>p \<in> set (timePoints (updateTimePoint X newLabel (Some newTime) st)).
           id' p = X \<and> label p = newLabel \<and> time p = newTime"
    if "X \<in> id' ` set (timePoints st)"
  proof -
    from that obtain q where q: "q \<in> set (timePoints st)" "id' q = X" by auto
    then have "q\<lparr>label := newLabel, time := newTime\<rparr>
                 \<in> set (timePoints (updateTimePoint X newLabel (Some newTime) st))"
      by (force simp: updateTimePoint_def)
    then show ?thesis using q(2) by (intro bexI[of _ "q\<lparr>label := newLabel, time := newTime\<rparr>"]) simp_all
  qed
  moreover have "map id' (timePoints (updateTimePoint X newLabel optTime st)) = map id' (timePoints st)"
    by (simp add: updateTimePoint_def comp_def)
  ultimately show ?thesis
    by (simp add: updateTimePoint_def)
qed

theorem updateTimePoint_roundtrip_witness:
  "timePoints (updateTimePoint ''1000'' ''edited'' (Some 10)
      \<lparr>timePoints = [\<lparr>id' = ''1000'', time = 1, label = ''1''\<rparr>,
                     \<lparr>id' = ''2000'', time = 5, label = ''2''\<rparr>], isAdvancedMode = False\<rparr>) ! 0
     = \<lparr>id' = ''1000'', time = 10, label = ''edited''\<rparr>
   \<and> timePoints (updateTimePoint ''1000'' ''edited'' None
      \<lparr>timePoints = [\<lparr>id' = ''1000'', time = 1, label = ''1''\<rparr>,
                     \<lparr>id' = ''2000'', time = 5, label = ''2''\<rparr>], isAdvancedMode = False\<rparr>) ! 0
     = \<lparr>id' = ''1000'', time = 1, label = ''edited''\<rparr>
   \<and> timePoints (updateTimePoint ''1000'' ''edited'' (Some 10)
      \<lparr>timePoints = [\<lparr>id' = ''1000'', time = 1, label = ''1''\<rparr>,
                     \<lparr>id' = ''2000'', time = 5, label = ''2''\<rparr>], isAdvancedMode = False\<rparr>) ! 1
     = \<lparr>id' = ''2000'', time = 5, label = ''2''\<rparr>
   \<and> (\<exists>p \<in> set (timePoints (updateTimePoint ''1000'' ''edited'' (Some 10)
      \<lparr>timePoints = [\<lparr>id' = ''1000'', time = 1, label = ''1''\<rparr>,
                     \<lparr>id' = ''2000'', time = 5, label = ''2''\<rparr>], isAdvancedMode = False\<rparr>)).
         id' p = ''1000'' \<and> label p = ''edited'' \<and> time p = 10)"
proof -
  let ?st = "\<lparr>timePoints = [\<lparr>id' = ''1000'', time = 1, label = ''1''\<rparr>,
                     \<lparr>id' = ''2000'', time = 5, label = ''2''\<rparr>], isAdvancedMode = False\<rparr>"
  note u = updateTimePoint_roundtrip [of "''1000''" "''edited''" "Some 10" ?st 10]
  have a: "(0::nat) < length (timePoints ?st)" "(1::nat) < length (timePoints ?st)" by simp_all
  have "id' (timePoints ?st ! 0) = ''1000''" "id' (timePoints ?st ! 1) \<noteq> ''1000''"
       "''1000'' \<in> id' ` set (timePoints ?st)" by simp_all
  with u a show ?thesis by (simp del: One_nat_def)
qed

text \<open>
  Claim C8. When no stored point has the id \<open>X\<close>, \<open>removeTimePoint X\<close> and
  \<open>updateTimePoint X\<close> (with or without a time) return the state they were given; neither
  has an error branch.
\<close>

theorem unknown_id_noop:
  "X \<notin> id' ` set (timePoints st) \<Longrightarrow>
   removeTimePoint X st = st \<and> updateTimePoint X lbl optTime st = st"
proof -
  assume h: "X \<notin> id' ` set (timePoints st)"
  then have "filter (\<lambda>point. id' point \<noteq> X) (timePoints st) = timePoints st"
    by (intro filter_True) auto
  moreover have "map (\<lambda>point. if id' point = X
                        then point\<lparr>label := lbl,
                                   time := (case optTime of Some t \<Rightarrow> t | None \<Rightarrow> time point)\<rparr>
                        else point) (timePoints st) = timePoints st"
    using h by (intro map_idI) auto
  ultimately show ?thesis
    by (simp add: removeTimePoint_def updateTimePoint_def)
qed

theorem unknown_id_noop_witness:
  "''3000'' \<notin> id' ` set [\<lparr>id' = ''1000'', time = 1, label = ''1''\<rparr>,
                            \<lparr>id' = ''2000'', time = 5, label = ''2''\<rparr>]
   \<and> removeTimePoint ''3000''
        \<lparr>timePoints = [\<lparr>id' = ''1000'', time = 1, label = ''1''\<rparr>,
                       \<lparr>id' = ''2000'', time = 5, label = ''2''\<rparr>], isAdvancedMode = False\<rparr>
     = \<lparr>timePoints = [\<lparr>id' = ''1000'', time = 1, label = ''1''\<rparr>,
                      \<lparr>id' = ''2000'', time = 5, label = ''2''\<rparr>], isAdvancedMode = False\<rparr>
   \<and> updateTimePoint ''3000'' ''edited'' (Some 7)
        \<lparr>timePoints = [\<lparr>id' = ''1000'', time = 1, label = ''1''\<rparr>,
                       \<lparr>id' = ''2000'', time = 5, label = ''2''\<rparr>], isAdvancedMode = False\<rparr>
     = \<lparr>timePoints = [\<lparr>id' = ''1000'', time = 1, label = ''1''\<rparr>,
                      \<lparr>id' = ''2000'', time = 5, label = ''2''\<rparr>], isAdvancedMode = False\<rparr>"
proof -
  have h: "''3000'' \<notin> id' ` set (timePoints
        \<lparr>timePoints = [\<lparr>id' = ''1000'', time = 1, label = ''1''\<rparr>,
                       \<lparr>id' = ''2000'', time = 5, label = ''2''\<rparr>], isAdvancedMode = False\<rparr>)"
    by simp
  show ?thesis
    using unknown_id_noop [OF h, of "''edited''" "Some 7"] h by simp
qed

text \<open>
  Claim C10. In simple mode, on a store of three points or more, \<open>addTimePoint\<close>
  returns the state unchanged: the new point is dropped and no stored point is replaced.
  Three calls of \<open>recordCurrentTime\<close> from the empty store reach such a state.
\<close>

theorem addTimePoint_simple_full:
  "\<not> isAdvancedMode st \<Longrightarrow> 3 \<le> length (timePoints st) \<Longrightarrow> addTimePoint lbl now video st = st"
  by (cases video) (auto simp: addTimePoint_def Let_def)


theorem addTimePoint_simple_full_witness:
  "\<not> isAdvancedMode
       (run [Record 1000 (Some 1), Record 2000 (Some 2), Record 3000 (Some 3)] initialState)
   \<and> timePoints
       (run [Record 1000 (Some 1), Record 2000 (Some 2), Record 3000 (Some 3)] initialState)
     = [\<lparr>id' = ''1000'', time = 1, label = ''1''\<rparr>, \<lparr>id' = ''2000'', time = 2, label = ''2''\<rparr>,
        \<lparr>id' = ''3000'', time = 3, label = ''3''\<rparr>]
   \<and> addTimePoint ''x'' 4000 (Some (5 / 2))
       (run [Record 1000 (Some 1), Record 2000 (Some 2), Record 3000 (Some 3)] initialState)
     = run [Record 1000 (Some 1), Record 2000 (Some 2), Record 3000 (Some 3)] initialState"
proof -
  let ?st = "run [Record 1000 (Some 1), Record 2000 (Some 2), Record 3000 (Some 3)] initialState"
  have st: "?st = \<lparr>timePoints = [\<lparr>id' = ''1000'', time = 1, label = ''1''\<rparr>,
                      \<lparr>id' = ''2000'', time = 2, label = ''2''\<rparr>,
                      \<lparr>id' = ''3000'', time = 3, label = ''3''\<rparr>], isAdvancedMode = False\<rparr>"
    by (simp add: run_def initialState_def recordCurrentTime_def sortByTime_def
          toString.simps digitChar_def)
  have m: "\<not> isAdvancedMode ?st" and l: "3 \<le> length (timePoints ?st)"
    by (simp_all add: st)
  show ?thesis
    using addTimePoint_simple_full [OF m l, of "''x''" 4000 "Some (5 / 2)"] m
    by (simp add: st)
qed

section \<open>Order of the store\<close>

lemma sorted_step:
  assumes "\<not> isUpdate c" "sorted (map time (timePoints st))"
  shows "sorted (map time (timePoints (step st c)))"
proof (cases c)
  case (Record now video)
  then show ?thesis using assms(2)
    by (cases video) (simp_all add: recordCurrentTime_def Let_def sorted_sortByTime)
next
  case (Add lbl now video)
  then show ?thesis using assms(2)
    by (cases video) (simp_all add: addTimePoint_def Let_def sorted_sortByTime)
next
  case (Update i lbl newTime)
  then show ?thesis using assms(1) by simp
next
  case (Remove i)
  then show ?thesis using assms(2) by (simp add: removeTimePoint_def sorted_filter)
next
  case Reset
  then show ?thesis by (simp add: resetTimePoints_def)
next
  case ToggleMode
  then show ?thesis using assms(2) by (simp add: toggleMode_def)
qed

lemma sorted_run:
  "\<forall>c \<in> set calls. \<not> isUpdate c \<Longrightarrow> sorted (map time (timePoints st)) \<Longrightarrow>
   sorted (map time (timePoints (run calls st)))"
proof (induction calls arbitrary: st)
  case Nil
  then show ?case by (simp add: run_Nil)
next
  case (Cons c cs)
  then show ?case by (simp add: run_Cons sorted_step)
qed

lemma stable_add:
  "subseq (filter (\<lambda>p. time p = k) (timePoints (addTimePoint lbl now (Some t) st)))
          (filter (\<lambda>p. time p = k) (timePoints st @ [newPointOf lbl now t st]))"
proof -
  let ?q = "newPointOf lbl now t st"
  let ?F = "filter (\<lambda>p. time p = k)"
  consider (sorted_all) "timePoints (addTimePoint lbl now (Some t) st) = sortByTime (timePoints st @ [?q])"
    | (two) p1 p2 where "timePoints st = [p1, p2]"
        "timePoints (addTimePoint lbl now (Some t) st) = sortByTime [p1, ?q]"
    | (more) "timePoints (addTimePoint lbl now (Some t) st) = timePoints st"
    using addTimePoint_result[of lbl now t st] by blast
  then show ?thesis
  proof cases
    case sorted_all
    then show ?thesis by (simp only: filter_sortByTime subseq_order.refl)
  next
    case (two p1 p2)
    have "subseq [p1, ?q] (timePoints st @ [?q])" by (simp add: two(1))
    then have "subseq (?F [p1, ?q]) (?F (timePoints st @ [?q]))" by (rule subseq_filter)
    then show ?thesis by (simp only: two(2) filter_sortByTime)
  next
    case more
    have "subseq (timePoints st) (timePoints st @ [?q])"
      by (intro subseq_rev_drop_many subseq_order.refl)
    then have "subseq (?F (timePoints st)) (?F (timePoints st @ [?q]))" by (rule subseq_filter)
    then show ?thesis by (simp only: more)
  qed
qed

lemma stable_step:
  assumes "\<not> isUpdate c"
  shows "subseq (filter (\<lambda>p. time p = k) (timePoints (step st c)))
                (filter (\<lambda>p. time p = k) (timePoints st @ created st c))"
proof (cases c)
  case (Record now video)
  then show ?thesis
    by (cases video) (simp_all add: recordCurrentTime_def Let_def filter_sortByTime)
next
  case (Add lbl now video)
  show ?thesis
  proof (cases video)
    case None
    then show ?thesis using Add by (simp add: addTimePoint_def)
  next
    case (Some t)
    then show ?thesis using Add stable_add[of k lbl now t st] by simp
  qed
next
  case (Update i lbl newTime)
  then show ?thesis using assms by simp
next
  case (Remove i)
  have "subseq (filter (\<lambda>point. id' point \<noteq> i) (timePoints st)) (timePoints st)" by simp
  then have "subseq (filter (\<lambda>p. time p = k) (filter (\<lambda>point. id' point \<noteq> i) (timePoints st)))
                    (filter (\<lambda>p. time p = k) (timePoints st))"
    by (rule subseq_filter)
  then show ?thesis using Remove by (simp add: removeTimePoint_def)
next
  case Reset
  then show ?thesis by (simp add: resetTimePoints_def)
next
  case ToggleMode
  then show ?thesis by (simp add: toggleMode_def)
qed

lemma stable_run:
  "\<forall>c \<in> set calls. \<not> isUpdate c \<Longrightarrow>
   subseq (filter (\<lambda>p. time p = k) (timePoints (run calls st)))
          (filter (\<lambda>p. time p = k) (timePoints st @ insertions st calls))"
proof (induction calls arbitrary: st)
  case Nil
  then show ?case by (simp add: run_Nil)
next
  case (Cons c cs)
  let ?F = "filter (\<lambda>p. time p = k)"
  have 1: "subseq (?F (timePoints (run cs (step st c))))
                  (?F (timePoints (step st c)) @ ?F (insertions (step st c) cs))"
    using Cons.IH[of "step st c"] Cons.prems by simp
  have "subseq (?F (timePoints (step st c))) (?F (timePoints st @ created st c))"
    using Cons.prems by (intro stable_step) simp
  then have 2: "subseq (?F (timePoints (step st c)) @ ?F (insertions (step st c) cs))
                       (?F (timePoints st @ created st c) @ ?F (insertions (step st c) cs))"
    by (rule list_emb_append_mono) simp
  have "subseq (?F (timePoints (run cs (step st c))))
               (?F (timePoints st @ created st c) @ ?F (insertions (step st c) cs))"
    using 1 2 by (rule subseq_order.trans)
  then show ?case by (simp add: run_Cons)
qed

text \<open>
  Claim C6. Take any sequence of calls without \<open>updateTimePoint\<close> (calls of
  \<open>recordCurrentTime\<close> and \<open>addTimePoint\<close>, and also removals, resets and mode
  toggles), run from a store without points in either mode. After it (hence after each
  of its calls, a prefix being such a sequence too) the stored points are sorted
  ascending by time, and for every time value the stored points with that time stand in
  the order in which they were inserted: they are a subsequence of the inserted points
  with that time, taken in insertion order. The sort itself keeps the relative order of
  points with equal time.
\<close>

theorem store_sorted_stable:
  "((\<forall>c \<in> set calls. \<not> isUpdate c) \<and> timePoints st = [] \<longrightarrow>
      sorted (map time (timePoints (run calls st)))
      \<and> (\<forall>k. subseq (filter (\<lambda>p. time p = k) (timePoints (run calls st)))
                     (filter (\<lambda>p. time p = k) (insertions st calls))))
   \<and> filter (\<lambda>p. time p = k) (sortByTime xs) = filter (\<lambda>p. time p = k) xs"
proof -
  have "sorted (map time (timePoints (run calls st)))"
    if "\<forall>c \<in> set calls. \<not> isUpdate c" "timePoints st = []"
    using that by (intro sorted_run) simp_all
  moreover have "subseq (filter (\<lambda>p. time p = j) (timePoints (run calls st)))
                     (filter (\<lambda>p. time p = j) (insertions st calls))"
    if "\<forall>c \<in> set calls. \<not> isUpdate c" "timePoints st = []" for j
    using stable_run[OF that(1), of j st] that(2) by simp
  ultimately show ?thesis
    by (simp add: filter_sortByTime)
qed

theorem store_sorted_stable_witness:
  "timePoints (run [Record 1000 (Some 5), Add ''a'' 2000 (Some 2), ToggleMode,
                    Add ''b'' 3000 (Some 5), Add ''c'' 4000 (Some 2)] initialState)
     = [\<lparr>id' = ''2000'', time = 2, label = ''a''\<rparr>, \<lparr>id' = ''4000'', time = 2, label = ''c''\<rparr>,
        \<lparr>id' = ''1000'', time = 5, label = ''1''\<rparr>, \<lparr>id' = ''3000'', time = 5, label = ''b''\<rparr>]
   \<and> sorted (map time (timePoints (run [Record 1000 (Some 5), Add ''a'' 2000 (Some 2), ToggleMode,
                    Add ''b'' 3000 (Some 5), Add ''c'' 4000 (Some 2)] initialState)))
   \<and> subseq (filter (\<lambda>p. time p = 5)
               (timePoints (run [Record 1000 (Some 5), Add ''a'' 2000 (Some 2), ToggleMode,
                    Add ''b'' 3000 (Some 5), Add ''c'' 4000 (Some 2)] initialState)))
            [\<lparr>id' = ''1000'', time = 5, label = ''1''\<rparr>, \<lparr>id' = ''3000'', time = 5, label = ''b''\<rparr>]"
proof -
  let ?calls = "[Record 1000 (Some 5), Add ''a'' 2000 (Some 2), ToggleMode,
                    Add ''b'' 3000 (Some 5), Add ''c'' 4000 (Some 2)]"
  have r: "timePoints (run ?calls initialState)
     = [\<lparr>id' = ''2000'', time = 2, label = ''a''\<rparr>, \<lparr>id' = ''4000'', time = 2, label = ''c''\<rparr>,
        \<lparr>id' = ''1000'', time = 5, label = ''1''\<rparr>, \<lparr>id' = ''3000'', time = 5, label = ''b''\<rparr>]"
    by (simp add: run_def initialState_def recordCurrentTime_def addTimePoint_def newPointOf_def
          toggleMode_def sortByTime_def toString.simps digitChar_def)
  have i: "filter (\<lambda>p. time p = 5) (insertions initialState ?calls)
     = [\<lparr>id' = ''1000'', time = 5, label = ''1''\<rparr>, \<lparr>id' = ''3000'', time = 5, label = ''b''\<rparr>]"
    by (simp add: initialState_def recordCurrentTime_def addTimePoint_def newPointOf_def
          toggleMode_def sortByTime_def toString.simps digitChar_def)
  have h: "(\<forall>c \<in> set ?calls. \<not> isUpdate c) \<and> timePoints initialState = []"
    by (simp add: initialState_def)
  from store_sorted_stable [of ?calls initialState] h
  have "sorted (map time (timePoints (run ?calls initialState)))"
    and "subseq (filter (\<lambda>p. time p = 5) (timePoints (run ?calls initialState)))
                (filter (\<lambda>p. time p = 5) (insertions initialState ?calls))"
    by blast+
  then show ?thesis using r i by (simp only: simp_thms)
qed

section \<open>Replacement in simple mode\<close>

text \<open>On a sorted store of two points the point kept by \<open>addTimePoint\<close>, the one at
  index 0, is a point of smallest time.\<close>

lemma addTimePoint_two_sorted:
  assumes "\<not> isAdvancedMode st" "timePoints st = [p1, p2]" "sorted (map time (timePoints st))"
  shows "timePoints (addTimePoint lbl now (Some t) st) = sortByTime [p1, newPointOf lbl now t st]"
    and "time p1 \<le> time p2"
  using assms by (simp_all add: addTimePoint_def Let_def)

text \<open>Without an update, the store is sorted when \<open>addTimePoint\<close> replaces a point, and
  the point it keeps is one of smallest time.\<close>

lemma addTimePoint_keeps_minimum_without_update:
  assumes "\<forall>c \<in> set calls. \<not> isUpdate c" "timePoints st0 = []"
    and "\<not> isAdvancedMode (run calls st0)" "timePoints (run calls st0) = [p1, p2]"
  shows "timePoints (addTimePoint lbl now (Some t) (run calls st0))
           = sortByTime [p1, newPointOf lbl now t (run calls st0)]"
    and "time p1 \<le> time p2"
proof -
  have "sorted (map time (timePoints st0))" using assms(2) by simp
  with assms(1) have "sorted (map time (timePoints (run calls st0)))"
    by (rule sorted_run)
  then show "timePoints (addTimePoint lbl now (Some t) (run calls st0))
           = sortByTime [p1, newPointOf lbl now t (run calls st0)]" and "time p1 \<le> time p2"
    using assms(3,4) by (simp_all add: addTimePoint_def Let_def)
qed

text \<open>
  Claim C4. The claim asks that \<open>addTimePoint\<close>, on any reachable simple-mode store of
  two points, keeps the stored point of smaller time. The code keeps the point at index
  0, named \<open>beginning\<close>. After two additions at times 1 and 5 and an update of the first
  point to time 10 (no sort follows an update), the store is the point of time 10
  followed by the point of time 5; the next addition, at time 7, keeps the point of time
  10 and discards the point of time 5, the stored point of smaller time.
\<close>

theorem addTimePoint_keeps_index_0_after_update:
  "timePoints (run [Add ''a'' 1000 (Some 1), Add ''b'' 2000 (Some 5),
                    Update ''1000'' ''a'' (Some 10)] initialState)
     = [\<lparr>id' = ''1000'', time = 10, label = ''a''\<rparr>, \<lparr>id' = ''2000'', time = 5, label = ''b''\<rparr>]
   \<and> \<not> isAdvancedMode (run [Add ''a'' 1000 (Some 1), Add ''b'' 2000 (Some 5),
                    Update ''1000'' ''a'' (Some 10)] initialState)
   \<and> timePoints (run [Add ''a'' 1000 (Some 1), Add ''b'' 2000 (Some 5),
                    Update ''1000'' ''a'' (Some 10), Add ''c'' 3000 (Some 7)] initialState)
     = [\<lparr>id' = ''3000'', time = 7, label = ''c''\<rparr>, \<lparr>id' = ''1000'', time = 10, label = ''a''\<rparr>]"
  by (simp add: run_def initialState_def addTimePoint_def newPointOf_def updateTimePoint_def
        sortByTime_def toString.simps digitChar_def)

section \<open>Identifiers\<close>

text \<open>The decimal string determines the number.\<close>

lemma digitChar_inj: "a < 10 \<Longrightarrow> b < 10 \<Longrightarrow> digitChar a = digitChar b \<Longrightarrow> a = b"
proof -
  assume a: "a < 10" and b: "b < 10" and e: "digitChar a = digitChar b"
  have d: "distinct ''0123456789''" by simp
  have "length ''0123456789'' = 10" by simp
  with a b e d show ?thesis
    unfolding digitChar_def by (simp only: nth_eq_iff_index_eq)
qed

lemma toString_nonempty: "toString n \<noteq> []"
  by (subst toString.simps) simp

lemma toString_small: "n < 10 \<Longrightarrow> toString n = [digitChar n]"
  by (subst toString.simps) simp

lemma toString_big:
  "\<not> n < 10 \<Longrightarrow> toString n = toString (n div 10) @ [digitChar (n mod 10)]"
  by (subst toString.simps) simp

lemma toString_big_length: "\<not> n < 10 \<Longrightarrow> length (toString n) \<noteq> 1"
  using toString_nonempty[of "n div 10"] by (simp add: toString_big)

lemma toString_inj: "toString n = toString m \<Longrightarrow> n = m"
proof (induction n arbitrary: m rule: toString.induct)
  case (1 n)
  show ?case
  proof (cases "n < 10")
    case True
    then have n: "length (toString n) = 1" by (simp add: toString_small)
    show ?thesis
    proof (cases "m < 10")
      case mt: True
      have "[digitChar n] = [digitChar m]"
        using "1.prems" by (simp only: toString_small[OF True] toString_small[OF mt])
      then have "digitChar n = digitChar m" by simp
      with True mt show ?thesis by (rule digitChar_inj)
    next
      case False
      then have "length (toString m) \<noteq> 1" by (rule toString_big_length)
      with n "1.prems" show ?thesis by (simp only:)
    qed
  next
    case False
    show ?thesis
    proof (cases "m < 10")
      case True
      then have "length (toString m) = 1" by (simp add: toString_small)
      moreover have "length (toString n) \<noteq> 1" using False by (rule toString_big_length)
      ultimately show ?thesis using "1.prems" by (simp only:)
    next
      case mf: False
      have "toString (n div 10) @ [digitChar (n mod 10)]
              = toString (m div 10) @ [digitChar (m mod 10)]"
        using "1.prems" by (simp only: toString_big[OF False] toString_big[OF mf])
      then have e: "toString (n div 10) = toString (m div 10)"
        "digitChar (n mod 10) = digitChar (m mod 10)" by simp_all
      from "1.IH"[OF False e(1)] have q: "n div 10 = m div 10" .
      have "n mod 10 < 10" "m mod 10 < 10" by simp_all
      then have r: "n mod 10 = m mod 10" using e(2) by (rule digitChar_inj)
      have "n = 10 * (n div 10) + n mod 10" "m = 10 * (m div 10) + m mod 10" by simp_all
      with q r show ?thesis by (simp only:)
    qed
  qed
qed

lemma distinct_ids_sortByTime:
  "distinct (map id' (sortByTime xs)) = distinct (map id' xs)"
proof -
  have "mset (map id' (sortByTime xs)) = mset (map id' xs)"
    by (simp add: sortByTime_def)
  then show ?thesis by (rule mset_eq_imp_distinct_iff)
qed

lemma set_sortByTime: "set (sortByTime xs) = set xs"
  by (simp add: sortByTime_def)

text \<open>A call adds no id but the strings of the clock values it reads, and keeps the
  ids distinct when those strings are new.\<close>

lemma ids_step:
  "id' ` set (timePoints (step st c)) \<subseteq> id' ` set (timePoints st) \<union> toString ` set (clockReads c)"
proof (cases c)
  case (Record now video)
  then show ?thesis
    by (cases video) (auto simp: recordCurrentTime_def Let_def set_sortByTime)
next
  case (Add lbl now video)
  show ?thesis
  proof (cases video)
    case None
    then show ?thesis using Add by (simp add: addTimePoint_def)
  next
    case (Some t)
    have "set (timePoints (addTimePoint lbl now (Some t) st))
            \<subseteq> set (timePoints st) \<union> {newPointOf lbl now t st}"
      using addTimePoint_result[of lbl now t st]
      by (elim disjE exE conjE) (auto simp: set_sortByTime)
    moreover have "id' (newPointOf lbl now t st) = toString now" by (simp add: newPointOf_def)
    ultimately show ?thesis using Add Some by auto
  qed
next
  case (Update i lbl newTime)
  then show ?thesis by (auto simp: updateTimePoint_def)
next
  case (Remove i)
  then show ?thesis by (auto simp: removeTimePoint_def)
next
  case Reset
  then show ?thesis by (simp add: resetTimePoints_def)
next
  case ToggleMode
  then show ?thesis by (simp add: toggleMode_def)
qed

lemma distinct_ids_step:
  assumes "distinct (map id' (timePoints st))"
    and "toString ` set (clockReads c) \<inter> id' ` set (timePoints st) = {}"
  shows "distinct (map id' (timePoints (step st c)))"
proof (cases c)
  case (Record now video)
  then show ?thesis using assms
    by (cases video) (auto simp: recordCurrentTime_def Let_def distinct_ids_sortByTime)
next
  case (Add lbl now video)
  show ?thesis
  proof (cases video)
    case None
    then show ?thesis using Add assms by (simp add: addTimePoint_def)
  next
    case (Some t)
    have n: "id' (newPointOf lbl now t st) = toString now" by (simp add: newPointOf_def)
    have new: "toString now \<notin> id' ` set (timePoints st)" using assms(2) Add Some by simp
    have "distinct (map id' (timePoints (addTimePoint lbl now (Some t) st)))"
      using addTimePoint_result[of lbl now t st]
    proof (elim disjE exE conjE)
      assume "timePoints (addTimePoint lbl now (Some t) st)
                = sortByTime (timePoints st @ [newPointOf lbl now t st])"
      then show ?thesis using assms(1) new n by (simp add: distinct_ids_sortByTime)
    next
      fix p1 p2
      assume st: "timePoints st = [p1, p2]"
        and r: "timePoints (addTimePoint lbl now (Some t) st)
                  = sortByTime [p1, newPointOf lbl now t st]"
      from new st have "id' p1 \<noteq> toString now" by auto
      then show ?thesis using r n by (simp add: distinct_ids_sortByTime)
    next
      assume "timePoints (addTimePoint lbl now (Some t) st) = timePoints st"
      then show ?thesis using assms(1) by simp
    qed
    then show ?thesis using Add Some by simp
  qed
next
  case (Update i lbl newTime)
  have "map id' (timePoints (updateTimePoint i lbl newTime st)) = map id' (timePoints st)"
    by (simp add: updateTimePoint_def comp_def)
  then show ?thesis using Update assms(1) by simp
next
  case (Remove i)
  then show ?thesis using assms(1) by (simp add: removeTimePoint_def distinct_map_filter)
next
  case Reset
  then show ?thesis by (simp add: resetTimePoints_def)
next
  case ToggleMode
  then show ?thesis using assms(1) by (simp add: toggleMode_def)
qed

text \<open>
  What does hold of the ids: as long as the clock values read by the calls that build a
  point are pairwise different, and none of them is the id of a point already stored,
  the stored ids are pairwise different after any sequence of calls.
\<close>

lemma disjoint_from_step:
  "R \<inter> C = {} \<Longrightarrow> R \<inter> I = {} \<Longrightarrow> S \<subseteq> I \<union> C \<Longrightarrow> R \<inter> S = {}"
  by blast

lemma distinct_clock_distinct_ids:
  "distinct (map id' (timePoints st)) \<Longrightarrow> distinct (concat (map clockReads calls)) \<Longrightarrow>
   toString ` set (concat (map clockReads calls)) \<inter> id' ` set (timePoints st) = {} \<Longrightarrow>
   distinct (map id' (timePoints (run calls st)))"
proof (induction calls arbitrary: st)
  case Nil
  then show ?case by (simp add: run_Nil)
next
  case (Cons c cs)
  let ?rest = "concat (map clockReads cs)"
  have inj: "inj toString" by (rule injI) (rule toString_inj)
  have sp: "distinct (clockReads c @ ?rest)" using Cons.prems(2) by simp
  then have dr: "distinct ?rest" and dj: "set ?rest \<inter> set (clockReads c) = {}"
    by auto
  have un: "toString ` set (clockReads c) \<union> toString ` set ?rest
              = toString ` set (concat (map clockReads (c # cs)))"
    by (simp add: image_Un)
  have here: "toString ` set (clockReads c) \<inter> id' ` set (timePoints st) = {}"
    and later: "toString ` set ?rest \<inter> id' ` set (timePoints st) = {}"
    using Cons.prems(3) unfolding un[symmetric] by blast+
  have d: "distinct (map id' (timePoints (step st c)))"
    using Cons.prems(1) here by (rule distinct_ids_step)
  have "toString ` set ?rest \<inter> toString ` set (clockReads c)
          = toString ` (set ?rest \<inter> set (clockReads c))"
    using inj by (rule image_Int[symmetric])
  then have "toString ` set ?rest \<inter> toString ` set (clockReads c) = {}"
    by (simp only: dj image_empty)
  then have "toString ` set ?rest \<inter> id' ` set (timePoints (step st c)) = {}"
    using later ids_step[of st c] by (rule disjoint_from_step)
  with d dr have "distinct (map id' (timePoints (run cs (step st c))))"
    by (rule Cons.IH)
  then show ?case by (simp only: run_Cons)
qed

text \<open>
  Claim C9. The claim asks that no two stored points share an id. The id of a new point
  is the decimal string of \<open>Date.now()\<close>, so two calls of \<open>recordCurrentTime\<close> (or of
  \<open>addTimePoint\<close>) that read the same clock value store two points with the same id;
  \<open>removeTimePoint\<close> on that id then deletes both.
\<close>

theorem same_clock_value_same_id:
  "timePoints (run [Record 1000 (Some 1), Record 1000 (Some 2)] initialState)
     = [\<lparr>id' = ''1000'', time = 1, label = ''1''\<rparr>, \<lparr>id' = ''1000'', time = 2, label = ''2''\<rparr>]
   \<and> \<not> distinct (map id' (timePoints
         (run [Record 1000 (Some 1), Record 1000 (Some 2)] initialState)))
   \<and> \<not> distinct (map id' (timePoints
         (run [Add ''a'' 1000 (Some 1), Add ''b'' 1000 (Some 2)] initialState)))
   \<and> timePoints (run [Record 1000 (Some 1), Record 1000 (Some 2), Remove ''1000''] initialState)
     = []"
  by (simp add: run_def initialState_def recordCurrentTime_def addTimePoint_def newPointOf_def
        removeTimePoint_def sortByTime_def toString.simps digitChar_def)

end
